theory Spec2Isabelle
  imports Main "HOL-Library.Word" "HOL-Library.Sublist"
begin

text \<open>
  A model of \<^verbatim>\<open>cmd/flux/reconcile_source_bucket.go\<close>: the command that annotates a
  Bucket with a reconcile request and waits until the controller has handled it. The
  cluster is an explicit world that is passed through every call; each Go function of
  the file is a function of the same name here.
\<close>

section \<open>The Bucket resource\<close>

text \<open>
  The fields of \<^verbatim>\<open>sourcev1.Bucket\<close> that \<^verbatim>\<open>reconcile_source_bucket.go\<close> reads or
  writes. \<^verbatim>\<open>metav1.ConditionStatus\<close> is a Go string type, so a status is a string and
  the three named statuses are constants. \<^verbatim>\<open>Status.Artifact\<close> is a pointer and
  \<^verbatim>\<open>Annotations\<close> is a Go map: both can be nil, which is \<open>None\<close> here. The two
  names \<^verbatim>\<open>meta.ReadyCondition\<close> and \<^verbatim>\<open>meta.ReconcileRequestAnnotation\<close> are
  constants of fluxcd/pkg; no theorem depends on their values.
\<close>

type_synonym ConditionStatus = string

definition ConditionTrue :: ConditionStatus where
  "ConditionTrue = ''True''"

definition ConditionFalse :: ConditionStatus where
  "ConditionFalse = ''False''"

definition ConditionUnknown :: ConditionStatus where
  "ConditionUnknown = ''Unknown''"

definition ReadyCondition :: string where
  "ReadyCondition = ''Ready''"

definition ReconcileRequestAnnotation :: string where
  "ReconcileRequestAnnotation = ''reconcile.fluxcd.io/requestedAt''"

record Condition =
  Type :: string
  CondStatus :: ConditionStatus
  Message :: string

record Artifact =
  Revision :: string

record BucketSpec =
  Suspend :: bool

record BucketStatus =
  ObservedGeneration :: "64 word"
  Conditions :: "Condition list"
  Artifact :: "Artifact option"
  LastHandledReconcileAt :: string

record Bucket =
  Generation :: "64 word"
  Annotations :: "(string \<rightharpoonup> string) option"
  Spec :: BucketSpec
  Status :: BucketStatus

text \<open>The zero value of \<^verbatim>\<open>var bucket sourcev1.Bucket\<close>.\<close>

definition zero_Bucket :: Bucket where
  "zero_Bucket =
     \<lparr>Generation = 0, Annotations = None, Spec = \<lparr>Suspend = False\<rparr>,
      Status = \<lparr>ObservedGeneration = 0, Conditions = [], Artifact = None,
                LastHandledReconcileAt = []\<rparr>\<rparr>"

section \<open>Condition helpers of apimachinery\<close>

text \<open>
  Modelled from the spec: \<^verbatim>\<open>apimeta.FindStatusCondition\<close> and
  \<^verbatim>\<open>apimeta.IsStatusConditionFalse\<close> belong to k8s.io/apimachinery and are not among the
  source files. The spec says "find condition of type Ready": the first entry of the
  sequence whose type matches is the one that counts, and a nil result is \<open>None\<close>.
\<close>

fun FindStatusCondition :: "Condition list \<Rightarrow> string \<Rightarrow> Condition option" where
  "FindStatusCondition [] conditionType = None"
| "FindStatusCondition (c # conditions) conditionType =
     (if Type c = conditionType then Some c
      else FindStatusCondition conditions conditionType)"

fun IsStatusConditionPresentAndEqual ::
  "Condition list \<Rightarrow> string \<Rightarrow> ConditionStatus \<Rightarrow> bool" where
  "IsStatusConditionPresentAndEqual [] conditionType status = False"
| "IsStatusConditionPresentAndEqual (c # conditions) conditionType status =
     (if Type c = conditionType then CondStatus c = status
      else IsStatusConditionPresentAndEqual conditions conditionType status)"

definition IsStatusConditionFalse :: "Condition list \<Rightarrow> string \<Rightarrow> bool" where
  "IsStatusConditionFalse conditions conditionType =
     IsStatusConditionPresentAndEqual conditions conditionType ConditionFalse"

section \<open>Errors and the API server\<close>

text \<open>
  \<open>NotFound\<close> and \<open>Conflict\<close> are the two error kinds of the store contract,
  \<open>Unavailable\<close> is any other failure of a request (transport, expired context),
  \<open>ErrWaitTimeout\<close> is \<^verbatim>\<open>wait.ErrWaitTimeout\<close>, and \<open>Errorf f\<close> is the error that
  \<^verbatim>\<open>fmt.Errorf(f)\<close> builds from the format string \<open>f\<close> and no further argument.
\<close>

datatype error = NotFound | Conflict | Unavailable string | ErrWaitTimeout | Errorf string

definition IsConflict :: "error \<Rightarrow> bool" where
  "IsConflict err = (err = Conflict)"

datatype request = GetRequest | UpdateRequest Bucket

text \<open>
  What the cluster does when a request arrives. \<open>interfere\<close> is the write of another
  actor (the controller, another operator) that lands just before the request is looked
  at: \<open>None\<close> for no write, \<open>Some x\<close> when the stored object becomes \<open>x\<close>
  (\<open>Some None\<close> deletes it). \<open>verdict\<close> is how the API server treats the request:
  it serves it, fails it, or rejects a write as stale. A read is never stale.
\<close>

datatype verdict = Serve | Outage string | Stale

record event =
  interfere :: "Bucket option option"
  verdict :: verdict

text \<open>
  The world outside the command: the object held by the API server under the
  namespaced name, the events that meet the successive requests, the requests received
  so far (most recent first), the text that \<^verbatim>\<open>time.Now().Format(time.RFC3339Nano)\<close>
  yields after a given number of requests, and what \<^verbatim>\<open>utils.KubeClient\<close> returns.
\<close>

record world =
  stored :: "Bucket option"
  script :: "nat \<Rightarrow> event"
  served :: "request list"
  clock :: "nat \<Rightarrow> string"
  kubeconfig :: "error option"

definition arrive :: "request \<Rightarrow> world \<Rightarrow> verdict \<times> world" where
  "arrive r w =
     (let ev = script w (length (served w))
      in (verdict ev,
          w\<lparr>stored := (case interfere ev of None \<Rightarrow> stored w | Some x \<Rightarrow> x),
            served := r # served w\<rparr>))"

text \<open>
  Modelled from the spec: the client of controller-runtime is not among the source
  files. "Get(ref) -> (Resource snapshot, error); error kind NotFound when absent" and
  "Update(resource) -> (ok, error); error kind Conflict when the resource changed since
  it was last fetched by the caller". The first component of the state is the object
  behind the \<^verbatim>\<open>*sourcev1.Bucket\<close> pointer, which a successful Get overwrites.
\<close>

type_synonym state = "Bucket \<times> world"

definition kubeClient_Get :: "state \<Rightarrow> error option \<times> state" where
  "kubeClient_Get s =
     (case s of (bucket, w) \<Rightarrow>
        (case arrive GetRequest w of
           (Outage m, w1) \<Rightarrow> (Some (Unavailable m), (bucket, w1))
         | (_, w1) \<Rightarrow>
             (case stored w1 of
                None \<Rightarrow> (Some NotFound, (bucket, w1))
              | Some b \<Rightarrow> (None, (b, w1)))))"

definition kubeClient_Update :: "state \<Rightarrow> error option \<times> state" where
  "kubeClient_Update s =
     (case s of (bucket, w) \<Rightarrow>
        (case arrive (UpdateRequest bucket) w of
           (Outage m, w1) \<Rightarrow> (Some (Unavailable m), (bucket, w1))
         | (Stale, w1) \<Rightarrow> (Some Conflict, (bucket, w1))
         | (Serve, w1) \<Rightarrow>
             (case stored w1 of
                None \<Rightarrow> (Some NotFound, (bucket, w1))
              | Some b \<Rightarrow> (None, (bucket, w1\<lparr>stored := Some bucket\<rparr>)))))"

definition utils_KubeClient :: "world \<Rightarrow> error option" where
  "utils_KubeClient w = kubeconfig w"

definition time_Now_Format :: "world \<Rightarrow> string" where
  "time_Now_Format w = clock w (length (served w))"

section \<open>The readiness predicates\<close>

type_synonym ConditionFunc = "state \<Rightarrow> (bool \<times> error option) \<times> state"

definition isBucketReady :: ConditionFunc where
  "isBucketReady s =
     (case kubeClient_Get s of
        (Some err, s') \<Rightarrow> ((False, Some err), s')
      | (None, (bucket, w)) \<Rightarrow>
          if Generation bucket \<noteq> ObservedGeneration (Status bucket)
          then ((False, None), (bucket, w))
          else
            (case FindStatusCondition (Conditions (Status bucket)) ReadyCondition of
               Some c \<Rightarrow>
                 if CondStatus c = ConditionTrue then ((True, None), (bucket, w))
                 else if CondStatus c = ConditionFalse
                 then ((False, Some (Errorf (Message c))), (bucket, w))
                 else ((False, None), (bucket, w))
             | None \<Rightarrow> ((False, None), (bucket, w))))"

definition bucketReconciliationHandled :: "string \<Rightarrow> ConditionFunc" where
  "bucketReconciliationHandled lastHandledReconcileAt s =
     (case kubeClient_Get s of
        (Some err, s') \<Rightarrow> ((False, Some err), s')
      | (None, (bucket, w)) \<Rightarrow>
          ((LastHandledReconcileAt (Status bucket) \<noteq> lastHandledReconcileAt, None),
           (bucket, w)))"

section \<open>Bounded polling and retry\<close>

text \<open>
  Modelled from the spec: \<^verbatim>\<open>wait.PollImmediate\<close> belongs to k8s.io/apimachinery and is
  not among the source files. "Performs an immediate check before waiting for the first
  interval", "returns success as soon as predicate reports satisfied", "returns error
  immediately", "returns timeout if deadline elapses with predicate never satisfied".
  Wall-clock time is not modelled: \<open>ticks\<close> is the number of further checks that the
  poll interval and the timeout admit after the immediate one.
\<close>

fun poll :: "nat \<Rightarrow> ('s \<Rightarrow> (bool \<times> error option) \<times> 's) \<Rightarrow> 's \<Rightarrow> error option \<times> 's" where
  "poll 0 condition s = (Some ErrWaitTimeout, s)"
| "poll (Suc ticks) condition s =
     (case condition s of
        ((done, Some err), s') \<Rightarrow> (Some err, s')
      | ((True, None), s') \<Rightarrow> (None, s')
      | ((False, None), s') \<Rightarrow> poll ticks condition s')"

definition PollImmediate ::
  "nat \<Rightarrow> ('s \<Rightarrow> (bool \<times> error option) \<times> 's) \<Rightarrow> 's \<Rightarrow> error option \<times> 's" where
  "PollImmediate ticks condition s =
     (case condition s of
        ((done, Some err), s') \<Rightarrow> (Some err, s')
      | ((True, None), s') \<Rightarrow> (None, s')
      | ((False, None), s') \<Rightarrow> poll ticks condition s')"

text \<open>
  Modelled from the spec: \<^verbatim>\<open>wait.ExponentialBackoff\<close> and \<^verbatim>\<open>retry.RetryOnConflict\<close>
  belong to k8s.io/apimachinery and k8s.io/client-go and are not among the source files.
  "If the write fails due to a concurrent modification conflict, the whole
  fetch-mutate-write sequence is retried with an exponential backoff (bounded number of
  attempts); any other write failure is fatal immediately." The bound is the field
  \<^verbatim>\<open>Steps\<close> of \<^verbatim>\<open>retry.DefaultBackoff\<close>, taken as the parameter \<open>steps\<close> (client-go
  sets it to 4); the sleeps between attempts are not modelled. \<open>OnError\<close> keeps the last
  retriable error in a variable of its own and returns it when the attempts run out.
\<close>

fun ExponentialBackoff ::
  "nat \<Rightarrow> ('s \<Rightarrow> (bool \<times> error option) \<times> 's) \<Rightarrow> 's \<Rightarrow> error option \<times> 's" where
  "ExponentialBackoff 0 condition s = (Some ErrWaitTimeout, s)"
| "ExponentialBackoff (Suc steps) condition s =
     (case condition s of
        ((ok, Some err), s') \<Rightarrow> (Some err, s')
      | ((True, None), s') \<Rightarrow> (None, s')
      | ((False, None), s') \<Rightarrow> ExponentialBackoff steps condition s')"

definition OnError_condition ::
  "(error \<Rightarrow> bool) \<Rightarrow> ('s \<Rightarrow> error option \<times> 's) \<Rightarrow>
   error option \<times> 's \<Rightarrow> (bool \<times> error option) \<times> error option \<times> 's" where
  "OnError_condition retriable fn ls =
     (case ls of (lastErr, s) \<Rightarrow>
        (case fn s of
           (None, s') \<Rightarrow> ((True, None), (lastErr, s'))
         | (Some err, s') \<Rightarrow>
             if retriable err then ((False, None), (Some err, s'))
             else ((False, Some err), (lastErr, s'))))"

definition OnError ::
  "nat \<Rightarrow> (error \<Rightarrow> bool) \<Rightarrow> ('s \<Rightarrow> error option \<times> 's) \<Rightarrow> 's \<Rightarrow> error option \<times> 's" where
  "OnError steps retriable fn s =
     (case ExponentialBackoff steps (OnError_condition retriable fn) (None, s) of
        (err, (lastErr, s')) \<Rightarrow>
          ((if err = Some ErrWaitTimeout then lastErr else err), s'))"


definition RetryOnConflict ::
  "nat \<Rightarrow> ('s \<Rightarrow> error option \<times> 's) \<Rightarrow> 's \<Rightarrow> error option \<times> 's" where
  "RetryOnConflict steps fn s = OnError steps IsConflict fn s"

section \<open>The trigger\<close>

text \<open>
  \<open>requestBucketReconciliation_fn\<close> is the function literal that
  \<^verbatim>\<open>requestBucketReconciliation\<close> hands to \<^verbatim>\<open>retry.RetryOnConflict\<close>: fetch, stamp the
  annotation (creating the map when it is nil), write back.
\<close>

definition requestBucketReconciliation_fn :: "state \<Rightarrow> error option \<times> state" where
  "requestBucketReconciliation_fn s =
     (case kubeClient_Get s of
        (Some err, s') \<Rightarrow> (Some err, s')
      | (None, (bucket, w)) \<Rightarrow>
          (case Annotations bucket of
             None \<Rightarrow>
               kubeClient_Update
                 (bucket\<lparr>Annotations :=
                    Some [ReconcileRequestAnnotation \<mapsto> time_Now_Format w]\<rparr>, w)
           | Some m \<Rightarrow>
               kubeClient_Update
                 (bucket\<lparr>Annotations :=
                    Some (m(ReconcileRequestAnnotation \<mapsto> time_Now_Format w))\<rparr>, w)))"

definition requestBucketReconciliation :: "nat \<Rightarrow> state \<Rightarrow> error option \<times> state" where
  "requestBucketReconciliation steps s =
     RetryOnConflict steps requestBucketReconciliation_fn s"

section \<open>The command\<close>

text \<open>
  \<^verbatim>\<open>rootArgs\<close>: the namespace, and the number of checks that \<^verbatim>\<open>rootArgs.pollInterval\<close>
  and \<^verbatim>\<open>rootArgs.timeout\<close> admit after the immediate one.
\<close>

record rootArgs =
  namespace :: string
  ticks :: nat

text \<open>
  The command either returns an error value (\<open>None\<close> is nil) or panics: the Go runtime
  panics when a nil pointer is dereferenced. The second component of the result is what
  \<^verbatim>\<open>logger\<close> printed, in order.
\<close>

datatype outcome = Return "error option" | Panic

definition reconcileSourceBucketCmdRun ::
  "nat \<Rightarrow> rootArgs \<Rightarrow> string list \<Rightarrow> world \<Rightarrow> outcome \<times> string list \<times> world" where
  "reconcileSourceBucketCmdRun steps ra args w =
     (case args of
        [] \<Rightarrow> (Return (Some (Errorf ''source name is required'')), [], w)
      | name # _ \<Rightarrow>
     (case utils_KubeClient w of
        Some err \<Rightarrow> (Return (Some err), [], w)
      | None \<Rightarrow>
     (case kubeClient_Get (zero_Bucket, w) of
        (Some err, (bucket, w)) \<Rightarrow> (Return (Some err), [], w)
      | (None, (bucket, w)) \<Rightarrow>
     if Suspend (Spec bucket)
     then (Return (Some (Errorf ''resource is suspended'')), [], w)
     else
       let lastHandledReconcileAt = LastHandledReconcileAt (Status bucket);
           out = [''annotating Bucket source '' @ name @ '' in '' @ namespace ra
                    @ '' namespace'']
       in
     (case requestBucketReconciliation steps (bucket, w) of
        (Some err, (bucket, w)) \<Rightarrow> (Return (Some err), out, w)
      | (None, (bucket, w)) \<Rightarrow>
       let out = out @ [''Bucket source annotated''];
           out = out @ [''waiting for Bucket source reconciliation'']
       in
     (case PollImmediate (ticks ra)
             (bucketReconciliationHandled lastHandledReconcileAt) (bucket, w) of
        (Some err, (bucket, w)) \<Rightarrow> (Return (Some err), out, w)
      | (None, (bucket, w)) \<Rightarrow>
       let out = out @ [''Bucket source reconciliation completed'']
       in
     if IsStatusConditionFalse (Conditions (Status bucket)) ReadyCondition
     then (Return (Some (Errorf ''Bucket source reconciliation failed'')), out, w)
     else
       (case Artifact (Status bucket) of
          None \<Rightarrow> (Panic, out, w)
        | Some artifact \<Rightarrow>
            (Return None, out @ [''fetched revision '' @ Revision artifact], w)))))))"

section \<open>Scenarios\<close>

text \<open>
  Concrete clusters on which the theorems below are instantiated. \<open>quiet\<close> serves a
  request with nobody else writing; \<open>rejected\<close> refuses a write as conflicting, as a
  store under contention (or a test double) does. The clock of a \<open>cluster\<close> stands
  still at midnight, which RFC3339Nano prints without a fraction.
\<close>

definition quiet :: event where
  "quiet = \<lparr>interfere = None, verdict = Serve\<rparr>"

definition rejected :: event where
  "rejected = \<lparr>interfere = None, verdict = Stale\<rparr>"

definition controller_writes :: "Bucket \<Rightarrow> event" where
  "controller_writes b = \<lparr>interfere = Some (Some b), verdict = Serve\<rparr>"

definition scripted :: "event list \<Rightarrow> nat \<Rightarrow> event" where
  "scripted evs n = (if n < length evs then evs ! n else quiet)"

definition cluster :: "Bucket option \<Rightarrow> (nat \<Rightarrow> event) \<Rightarrow> world" where
  "cluster b sc =
     \<lparr>stored = b, script = sc, served = [],
      clock = (\<lambda>n. ''2024-01-01T00:00:00Z''), kubeconfig = None\<rparr>"

definition podinfo :: Bucket where
  "podinfo =
     \<lparr>Generation = 1, Annotations = None, Spec = \<lparr>Suspend = False\<rparr>,
      Status = \<lparr>ObservedGeneration = 1, Conditions = [], Artifact = None,
                LastHandledReconcileAt = []\<rparr>\<rparr>"

definition suspended :: Bucket where
  "suspended = podinfo\<lparr>Spec := \<lparr>Suspend = True\<rparr>\<rparr>"

definition stale_ready :: Bucket where
  "stale_ready =
     \<lparr>Generation = 2, Annotations = None, Spec = \<lparr>Suspend = False\<rparr>,
      Status = \<lparr>ObservedGeneration = 1,
                Conditions = [\<lparr>Type = ''Ready'', CondStatus = ''True'', Message = ''ok''\<rparr>],
                Artifact = Some \<lparr>Revision = ''abc''\<rparr>,
                LastHandledReconcileAt = ''2024-01-01T00:00:00Z''\<rparr>\<rparr>"

definition contended :: world where
  "contended = cluster (Some podinfo) (\<lambda>n. if even n then quiet else rejected)"

definition args_podinfo :: "string list" where
  "args_podinfo = [''podinfo'']"

definition flux_system :: rootArgs where
  "flux_system = \<lparr>namespace = ''flux-system'', ticks = 3\<rparr>"

text \<open>
  The snapshots that the controller may leave once it has seen the request, each with
  the request annotation and its value copied to lastHandledReconcileAt: reconciled
  (scenario A of the spec), failed with a message (scenario B), handled with a stale
  observed generation and no Ready condition, and handled while still in progress with
  no artifact yet. In \<open>scenario b\<close> the resource \<open>podinfo\<close> is fetched, annotated and
  polled once with no change, and the controller writes \<open>b\<close> before the second check
  of the poll.
\<close>

definition requested :: "(string \<rightharpoonup> string) option" where
  "requested = Some [ReconcileRequestAnnotation \<mapsto> ''2024-01-01T00:00:00Z'']"

definition reconciled :: Bucket where
  "reconciled =
     \<lparr>Generation = 1, Annotations = requested, Spec = \<lparr>Suspend = False\<rparr>,
      Status = \<lparr>ObservedGeneration = 1,
                Conditions = [\<lparr>Type = ''Ready'', CondStatus = ''True'', Message = ''ok''\<rparr>],
                Artifact = Some \<lparr>Revision = ''abc''\<rparr>,
                LastHandledReconcileAt = ''2024-01-01T00:00:00Z''\<rparr>\<rparr>"

definition fetch_failed :: Bucket where
  "fetch_failed =
     \<lparr>Generation = 1, Annotations = requested, Spec = \<lparr>Suspend = False\<rparr>,
      Status = \<lparr>ObservedGeneration = 1,
                Conditions = [\<lparr>Type = ''Ready'', CondStatus = ''False'',
                               Message = ''fetch failed''\<rparr>],
                Artifact = None,
                LastHandledReconcileAt = ''2024-01-01T00:00:00Z''\<rparr>\<rparr>"

definition unreported :: Bucket where
  "unreported =
     \<lparr>Generation = 2, Annotations = requested, Spec = \<lparr>Suspend = False\<rparr>,
      Status = \<lparr>ObservedGeneration = 1, Conditions = [],
                Artifact = Some \<lparr>Revision = ''abc''\<rparr>,
                LastHandledReconcileAt = ''2024-01-01T00:00:00Z''\<rparr>\<rparr>"

definition in_progress :: Bucket where
  "in_progress =
     \<lparr>Generation = 1, Annotations = requested, Spec = \<lparr>Suspend = False\<rparr>,
      Status = \<lparr>ObservedGeneration = 1,
                Conditions = [\<lparr>Type = ''Ready'', CondStatus = ''Unknown'',
                               Message = ''reconciliation in progress''\<rparr>],
                Artifact = None,
                LastHandledReconcileAt = ''2024-01-01T00:00:00Z''\<rparr>\<rparr>"

definition scenario :: "Bucket \<Rightarrow> world" where
  "scenario b =
     cluster (Some podinfo) (scripted [quiet, quiet, quiet, quiet, controller_writes b])"

section \<open>The store client\<close>

lemma kubeClient_Get_ok:
  assumes "kubeClient_Get (b, w) = (None, (b', w'))"
  shows "stored w' = Some b'" and "served w' = GetRequest # served w"
    and "script w' = script w" and "clock w' = clock w"
  using assms
  by (auto simp: kubeClient_Get_def arrive_def Let_def split: verdict.splits option.splits)



section \<open>Readiness predicates\<close>

text \<open>
  C6. Whenever the fetched snapshot has an observed generation different from its
  generation, the readiness predicate reports "not satisfied, no error" (the spec's
  Pending), whatever its conditions are: a Ready condition with status True from an
  earlier generation does not count.
\<close>

theorem isBucketReady_stale_generation:
  assumes "kubeClient_Get s = (None, (bucket, w))"
    and "Generation bucket \<noteq> ObservedGeneration (Status bucket)"
  shows "isBucketReady s = ((False, None), (bucket, w))"
  using assms by (simp add: isBucketReady_def)

theorem isBucketReady_stale_generation_witness:
  "Generation stale_ready \<noteq> ObservedGeneration (Status stale_ready)
   \<and> FindStatusCondition (Conditions (Status stale_ready)) ReadyCondition =
       Some \<lparr>Type = ''Ready'', CondStatus = ConditionTrue, Message = ''ok''\<rparr>
   \<and> fst (isBucketReady (zero_Bucket, cluster (Some stale_ready) (\<lambda>n. quiet))) = (False, None)"
proof -
  have g: "kubeClient_Get (zero_Bucket, cluster (Some stale_ready) (\<lambda>n. quiet)) =
           (None, (stale_ready, (cluster (Some stale_ready) (\<lambda>n. quiet))\<lparr>served := [GetRequest]\<rparr>))"
    by (simp add: kubeClient_Get_def arrive_def cluster_def quiet_def Let_def)
  have n: "Generation stale_ready \<noteq> ObservedGeneration (Status stale_ready)"
    by (simp add: stale_ready_def)
  show ?thesis
    using isBucketReady_stale_generation [OF g n] n
    by (simp add: stale_ready_def ReadyCondition_def ConditionTrue_def)
qed

text \<open>
  C7. On a fetched snapshot the handled predicate is false exactly when the
  snapshot's lastHandledReconcileAt equals the baseline and true for every other value;
  the witness is the step from the empty string to a timestamp.
\<close>

theorem bucketReconciliationHandled_iff:
  assumes "kubeClient_Get s = (None, (bucket, w))"
  shows "bucketReconciliationHandled baseline s =
           ((LastHandledReconcileAt (Status bucket) \<noteq> baseline, None), (bucket, w))"
  using assms by (simp add: bucketReconciliationHandled_def)

theorem bucketReconciliationHandled_iff_witness:
  "fst (bucketReconciliationHandled [] (zero_Bucket, cluster (Some stale_ready) (\<lambda>n. quiet))) =
     (True, None)
   \<and> fst (bucketReconciliationHandled [] (zero_Bucket, cluster (Some podinfo) (\<lambda>n. quiet))) =
     (False, None)"
proof -
  have g1: "kubeClient_Get (zero_Bucket, cluster (Some stale_ready) (\<lambda>n. quiet)) =
           (None, (stale_ready, (cluster (Some stale_ready) (\<lambda>n. quiet))\<lparr>served := [GetRequest]\<rparr>))"
    by (simp add: kubeClient_Get_def arrive_def cluster_def quiet_def Let_def)
  have g2: "kubeClient_Get (zero_Bucket, cluster (Some podinfo) (\<lambda>n. quiet)) =
           (None, (podinfo, (cluster (Some podinfo) (\<lambda>n. quiet))\<lparr>served := [GetRequest]\<rparr>))"
    by (simp add: kubeClient_Get_def arrive_def cluster_def quiet_def Let_def)
  show ?thesis
    using bucketReconciliationHandled_iff [OF g1, of "[]"]
      bucketReconciliationHandled_iff [OF g2, of "[]"]
    by (simp add: stale_ready_def podinfo_def)
qed

section \<open>Suspended resources\<close>

text \<open>
  C8. When the resource fetched at the start is suspended, the command returns the
  error "resource is suspended" at once: it prints nothing, the cluster is left exactly
  as that one fetch left it, so the store still holds the fetched resource and the only
  request made is the Get (no Update is attempted).
\<close>

theorem suspended_is_rejected:
  assumes "args \<noteq> []" and "utils_KubeClient w = None"
    and "kubeClient_Get (zero_Bucket, w) = (None, (bucket, w'))"
    and "Suspend (Spec bucket)"
  shows "reconcileSourceBucketCmdRun steps ra args w =
           (Return (Some (Errorf ''resource is suspended'')), [], w')
         \<and> stored w' = Some bucket \<and> served w' = GetRequest # served w"
  using assms kubeClient_Get_ok[OF assms(3)]
  by (cases args) (simp_all add: reconcileSourceBucketCmdRun_def)

theorem suspended_is_rejected_witness:
  "reconcileSourceBucketCmdRun 4 flux_system args_podinfo (cluster (Some suspended) (\<lambda>n. quiet)) =
     (Return (Some (Errorf ''resource is suspended'')), [],
      (cluster (Some suspended) (\<lambda>n. quiet))\<lparr>served := [GetRequest]\<rparr>)
   \<and> stored ((cluster (Some suspended) (\<lambda>n. quiet))\<lparr>served := [GetRequest]\<rparr>) = Some suspended"
proof -
  have a: "args_podinfo \<noteq> []" by (simp add: args_podinfo_def)
  have k: "utils_KubeClient (cluster (Some suspended) (\<lambda>n. quiet)) = None"
    by (simp add: utils_KubeClient_def cluster_def)
  have g: "kubeClient_Get (zero_Bucket, cluster (Some suspended) (\<lambda>n. quiet)) =
           (None, (suspended, (cluster (Some suspended) (\<lambda>n. quiet))\<lparr>served := [GetRequest]\<rparr>))"
    by (simp add: kubeClient_Get_def arrive_def cluster_def quiet_def Let_def)
  have u: "Suspend (Spec suspended)" by (simp add: suspended_def)
  show ?thesis
    using suspended_is_rejected [OF a k g u, of 4 flux_system] by simp
qed

section \<open>The trigger: retry on conflict\<close>


lemma OnError_Suc_ok:
  assumes "fn s = (None, s')"
  shows "OnError (Suc n) retriable fn s = (None, s')"
  using assms by (simp add: OnError_def OnError_condition_def)






lemma fn_conflict_step:
  assumes "stored w = Some b"
    and "script w (length (served w)) = \<lparr>interfere = None, verdict = Serve\<rparr>"
    and "script w (Suc (length (served w))) = \<lparr>interfere = None, verdict = Stale\<rparr>"
  shows "\<exists>bucket' w'. requestBucketReconciliation_fn (bucket, w) = (Some Conflict, (bucket', w'))
           \<and> stored w' = Some b \<and> script w' = script w
           \<and> length (served w') = Suc (Suc (length (served w)))"
  using assms
  by (simp add: requestBucketReconciliation_fn_def kubeClient_Get_def kubeClient_Update_def
      arrive_def Let_def split: option.splits)

lemma backoff_exhausted:
  assumes "stored w = Some b"
    and "\<forall>i < steps. script w (length (served w) + 2 * i) = \<lparr>interfere = None, verdict = Serve\<rparr>"
    and "\<forall>i < steps. script w (length (served w) + 2 * i + 1) = \<lparr>interfere = None, verdict = Stale\<rparr>"
  shows "\<exists>bucket' w'.
           ExponentialBackoff steps (OnError_condition IsConflict requestBucketReconciliation_fn)
             (l, (bucket, w)) =
           (Some ErrWaitTimeout, ((if steps = 0 then l else Some Conflict), (bucket', w')))
           \<and> stored w' = Some b
           \<and> length (served w') = length (served w) + 2 * steps"
  using assms
proof (induction steps arbitrary: l bucket w)
  case 0
  then show ?case by simp
next
  case (Suc steps)
  have g: "script w (length (served w)) = \<lparr>interfere = None, verdict = Serve\<rparr>"
    using Suc.prems(2)[rule_format, of 0] by simp
  have u: "script w (Suc (length (served w))) = \<lparr>interfere = None, verdict = Stale\<rparr>"
    using Suc.prems(3)[rule_format, of 0] by simp
  obtain b1 w1 where
    fn: "requestBucketReconciliation_fn (bucket, w) = (Some Conflict, (b1, w1))"
    and st: "stored w1 = Some b" and sc: "script w1 = script w"
    and len: "length (served w1) = Suc (Suc (length (served w)))"
    using fn_conflict_step[OF Suc.prems(1) g u] by blast
  have p2: "\<forall>i < steps. script w1 (length (served w1) + 2 * i) = \<lparr>interfere = None, verdict = Serve\<rparr>"
  proof (intro allI impI)
    fix i assume "i < steps"
    then show "script w1 (length (served w1) + 2 * i) = \<lparr>interfere = None, verdict = Serve\<rparr>"
      using Suc.prems(2)[rule_format, of "Suc i"] sc len by simp
  qed
  have p3: "\<forall>i < steps. script w1 (length (served w1) + 2 * i + 1) = \<lparr>interfere = None, verdict = Stale\<rparr>"
  proof (intro allI impI)
    fix i assume "i < steps"
    then show "script w1 (length (served w1) + 2 * i + 1) = \<lparr>interfere = None, verdict = Stale\<rparr>"
      using Suc.prems(3)[rule_format, of "Suc i"] sc len by simp
  qed
  obtain b2 w2 where
    eb: "ExponentialBackoff steps (OnError_condition IsConflict requestBucketReconciliation_fn)
             (Some Conflict, (b1, w1)) =
           (Some ErrWaitTimeout, ((if steps = 0 then Some Conflict else Some Conflict), (b2, w2)))"
    and st2: "stored w2 = Some b"
    and len2: "length (served w2) = length (served w1) + 2 * steps"
    using Suc.IH[OF st p2 p3, of "Some Conflict" b1] by blast
  have "ExponentialBackoff (Suc steps) (OnError_condition IsConflict requestBucketReconciliation_fn)
             (l, (bucket, w)) = (Some ErrWaitTimeout, (Some Conflict, (b2, w2)))"
    using fn eb by (simp add: OnError_condition_def IsConflict_def)
  then show ?case using st2 len2 len by simp
qed

text \<open>
  C4. If, for each of the \<open>steps\<close> attempts, the fetch is served and the write is
  rejected with a conflict (nobody else writing), then \<open>requestBucketReconciliation\<close>
  returns the conflict error after exactly \<open>steps\<close> attempts, and the stored resource is
  the one that was stored before the call.
\<close>

theorem conflict_exhaustion:
  assumes "0 < steps"
    and "stored w = Some b"
    and "\<forall>i < steps. script w (length (served w) + 2 * i) = quiet"
    and "\<forall>i < steps. script w (length (served w) + 2 * i + 1) = rejected"
  shows "fst (requestBucketReconciliation steps (bucket, w)) = Some Conflict
       \<and> stored (snd (snd (requestBucketReconciliation steps (bucket, w)))) = stored w
       \<and> length (served (snd (snd (requestBucketReconciliation steps (bucket, w))))) =
           length (served w) + 2 * steps"
proof -
  obtain b' w' where
    "ExponentialBackoff steps (OnError_condition IsConflict requestBucketReconciliation_fn)
             (None, (bucket, w)) =
           (Some ErrWaitTimeout, ((if steps = 0 then None else Some Conflict), (b', w')))"
    and "stored w' = Some b" and "length (served w') = length (served w) + 2 * steps"
    using backoff_exhausted[OF assms(2), of steps None bucket] assms(3,4)
    unfolding quiet_def rejected_def by blast
  then show ?thesis
    using assms(1,2)
    by (simp add: requestBucketReconciliation_def RetryOnConflict_def OnError_def)
qed

theorem conflict_exhaustion_witness:
  "fst (requestBucketReconciliation 4 (zero_Bucket, contended)) = Some Conflict
   \<and> stored (snd (snd (requestBucketReconciliation 4 (zero_Bucket, contended)))) = Some podinfo
   \<and> length (served (snd (snd (requestBucketReconciliation 4 (zero_Bucket, contended))))) = 8"
proof -
  have p: "(0::nat) < 4" by simp
  have st: "stored contended = Some podinfo" by (simp add: contended_def cluster_def)
  have g: "\<forall>i < 4. script contended (length (served contended) + 2 * i) = quiet"
    by (simp add: contended_def cluster_def)
  have u: "\<forall>i < 4. script contended (length (served contended) + 2 * i + 1) = rejected"
    by (simp add: contended_def cluster_def)
  show ?thesis
    using conflict_exhaustion [OF p st g u, of zero_Bucket] st
    by (simp add: contended_def cluster_def)
qed








text \<open>
  C9. When the fetched resource has no annotations map and the write is served,
  \<open>requestBucketReconciliation\<close> succeeds: it creates a map holding just the
  reconcile-request key with the current time, and that object is what the store holds
  afterwards.
\<close>

theorem nil_annotations:
  assumes "kubeClient_Get s = (None, (bucket, w1))"
    and "Annotations bucket = None"
    and "script w1 (length (served w1)) = quiet"
  shows "requestBucketReconciliation (Suc n) s =
           (None,
            (bucket\<lparr>Annotations := Some [ReconcileRequestAnnotation \<mapsto> time_Now_Format w1]\<rparr>,
             w1\<lparr>stored := Some (bucket\<lparr>Annotations :=
                    Some [ReconcileRequestAnnotation \<mapsto> time_Now_Format w1]\<rparr>),
                served := UpdateRequest (bucket\<lparr>Annotations :=
                    Some [ReconcileRequestAnnotation \<mapsto> time_Now_Format w1]\<rparr>) # served w1\<rparr>))"
proof -
  obtain b0 w0 where s: "s = (b0, w0)" by (cases s)
  have st: "stored w1 = Some bucket" using assms(1) kubeClient_Get_ok(1) s by blast
  have "requestBucketReconciliation_fn s = (None,
            (bucket\<lparr>Annotations := Some [ReconcileRequestAnnotation \<mapsto> time_Now_Format w1]\<rparr>,
             w1\<lparr>stored := Some (bucket\<lparr>Annotations :=
                    Some [ReconcileRequestAnnotation \<mapsto> time_Now_Format w1]\<rparr>),
                served := UpdateRequest (bucket\<lparr>Annotations :=
                    Some [ReconcileRequestAnnotation \<mapsto> time_Now_Format w1]\<rparr>) # served w1\<rparr>))"
    using assms st
    by (simp add: requestBucketReconciliation_fn_def kubeClient_Update_def arrive_def quiet_def
        Let_def)
  then show ?thesis
    by (simp add: requestBucketReconciliation_def RetryOnConflict_def OnError_Suc_ok)
qed

theorem nil_annotations_witness:
  "Annotations podinfo = None
   \<and> fst (requestBucketReconciliation 4 (zero_Bucket, cluster (Some podinfo) (\<lambda>n. quiet))) = None
   \<and> stored (snd (snd (requestBucketReconciliation 4
        (zero_Bucket, cluster (Some podinfo) (\<lambda>n. quiet))))) =
     Some (podinfo\<lparr>Annotations :=
        Some [ReconcileRequestAnnotation \<mapsto> ''2024-01-01T00:00:00Z'']\<rparr>)"
proof -
  have g: "kubeClient_Get (zero_Bucket, cluster (Some podinfo) (\<lambda>n. quiet)) =
           (None, (podinfo, (cluster (Some podinfo) (\<lambda>n. quiet))\<lparr>served := [GetRequest]\<rparr>))"
    by (simp add: kubeClient_Get_def arrive_def cluster_def quiet_def Let_def)
  have a: "Annotations podinfo = None" by (simp add: podinfo_def)
  have u: "script ((cluster (Some podinfo) (\<lambda>n. quiet))\<lparr>served := [GetRequest]\<rparr>)
             (length (served ((cluster (Some podinfo) (\<lambda>n. quiet))\<lparr>served := [GetRequest]\<rparr>))) =
           quiet"
    by (simp add: cluster_def)
  have "Suc 3 = 4" by simp
  then show ?thesis
    using nil_annotations [OF g a u, of 3] a
    by (simp add: time_Now_Format_def cluster_def)
qed

section \<open>The wait and the final evaluation\<close>

lemmas run_defs =
  reconcileSourceBucketCmdRun_def scenario_def cluster_def scripted_def quiet_def
  controller_writes_def podinfo_def args_podinfo_def flux_system_def
  utils_KubeClient_def kubeClient_Get_def kubeClient_Update_def arrive_def zero_Bucket_def
  requestBucketReconciliation_def RetryOnConflict_def OnError_def OnError_condition_def
  requestBucketReconciliation_fn_def IsConflict_def PollImmediate_def
  bucketReconciliationHandled_def IsStatusConditionFalse_def ReadyCondition_def
  ConditionFalse_def time_Now_Format_def eval_nat_numeral Let_def

lemma handled_done:
  assumes "bucketReconciliationHandled base (b, w) = ((True, None), (b', w'))"
  shows "stored w' = Some b'" and "served w' = GetRequest # served w"
    and "LastHandledReconcileAt (Status b') \<noteq> base"
proof -
  obtain eo b1 w1 where get: "kubeClient_Get (b, w) = (eo, (b1, w1))"
    using prod_cases3 by blast
  have eo: "eo = None" and eq: "b1 = b'" "w1 = w'"
    and h: "LastHandledReconcileAt (Status b1) \<noteq> base"
    using assms get by (auto simp: bucketReconciliationHandled_def split: option.splits)
  show "stored w' = Some b'" using kubeClient_Get_ok(1) get eo eq by blast
  show "served w' = GetRequest # served w" using kubeClient_Get_ok(2) get eo eq by blast
  show "LastHandledReconcileAt (Status b') \<noteq> base" using h eq by simp
qed

lemma poll_handled:
  assumes "poll n (bucketReconciliationHandled base) (b, w) = (None, (b', w'))"
  shows "stored w' = Some b' \<and> (\<exists>rest. served w' = GetRequest # rest)
         \<and> LastHandledReconcileAt (Status b') \<noteq> base"
  using assms
proof (induction n arbitrary: b w)
  case 0
  then show ?case by simp
next
  case (Suc n)
  obtain d eo b1 w1 where c: "bucketReconciliationHandled base (b, w) = ((d, eo), (b1, w1))"
    by (metis prod.exhaust)
  show ?case
  proof (cases eo)
    case (Some e)
    then show ?thesis using Suc.prems c by (cases d) simp_all
  next
    case None
    show ?thesis
    proof (cases d)
      case True
      then have "b1 = b'" "w1 = w'" using Suc.prems c None by simp_all
      then show ?thesis using handled_done[of base b w b' w'] c None True by simp
    next
      case False
      then have "poll n (bucketReconciliationHandled base) (b1, w1) = (None, (b', w'))"
        using Suc.prems c None by simp
      then show ?thesis by (rule Suc.IH)
    qed
  qed
qed

lemma PollImmediate_handled:
  assumes "PollImmediate n (bucketReconciliationHandled base) (b, w) = (None, (b', w'))"
  shows "stored w' = Some b' \<and> (\<exists>rest. served w' = GetRequest # rest)
         \<and> LastHandledReconcileAt (Status b') \<noteq> base"
proof -
  obtain d eo b1 w1 where c: "bucketReconciliationHandled base (b, w) = ((d, eo), (b1, w1))"
    by (metis prod.exhaust)
  show ?thesis
  proof (cases eo)
    case (Some e)
    then show ?thesis using assms c by (cases d) (simp_all add: PollImmediate_def)
  next
    case None
    show ?thesis
    proof (cases d)
      case True
      then have "b1 = b'" "w1 = w'" using assms c None by (simp_all add: PollImmediate_def)
      then show ?thesis using handled_done[of base b w b' w'] c None True by simp
    next
      case False
      then have "poll n (bucketReconciliationHandled base) (b1, w1) = (None, (b', w'))"
        using assms c None by (simp add: PollImmediate_def)
      then show ?thesis by (rule poll_handled)
    qed
  qed
qed

lemma IsStatusConditionPresentAndEqual_Find:
  "IsStatusConditionPresentAndEqual cs t st =
     (case FindStatusCondition cs t of None \<Rightarrow> False | Some c \<Rightarrow> CondStatus c = st)"
  by (induction cs) auto

lemma run_after_poll:
  assumes "args = name # rest"
    and "utils_KubeClient w = None"
    and "kubeClient_Get (zero_Bucket, w) = (None, (b0, w0))"
    and "\<not> Suspend (Spec b0)"
    and "requestBucketReconciliation steps (b0, w0) = (None, (b1, w1))"
    and "PollImmediate (ticks ra)
           (bucketReconciliationHandled (LastHandledReconcileAt (Status b0))) (b1, w1) =
         (None, (b2, w2))"
  shows "reconcileSourceBucketCmdRun steps ra args w =
     (if IsStatusConditionFalse (Conditions (Status b2)) ReadyCondition
      then (Return (Some (Errorf ''Bucket source reconciliation failed'')),
            [''annotating Bucket source '' @ name @ '' in '' @ namespace ra @ '' namespace'',
             ''Bucket source annotated'', ''waiting for Bucket source reconciliation'',
             ''Bucket source reconciliation completed''], w2)
      else (case Artifact (Status b2) of
              None \<Rightarrow> (Panic,
                [''annotating Bucket source '' @ name @ '' in '' @ namespace ra @ '' namespace'',
                 ''Bucket source annotated'', ''waiting for Bucket source reconciliation'',
                 ''Bucket source reconciliation completed''], w2)
            | Some artifact \<Rightarrow> (Return None,
                [''annotating Bucket source '' @ name @ '' in '' @ namespace ra @ '' namespace'',
                 ''Bucket source annotated'', ''waiting for Bucket source reconciliation'',
                 ''Bucket source reconciliation completed'',
                 ''fetched revision '' @ Revision artifact], w2)))"
  using assms by (simp add: reconcileSourceBucketCmdRun_def Let_def split: option.splits)

lemma run_success_phases:
  assumes "fst (reconcileSourceBucketCmdRun steps ra args w) = Return None"
  shows "\<exists>name rest b0 w0 b1 w1 b2 w2.
      args = name # rest \<and> utils_KubeClient w = None
    \<and> kubeClient_Get (zero_Bucket, w) = (None, (b0, w0))
    \<and> \<not> Suspend (Spec b0)
    \<and> requestBucketReconciliation steps (b0, w0) = (None, (b1, w1))
    \<and> PollImmediate (ticks ra)
           (bucketReconciliationHandled (LastHandledReconcileAt (Status b0))) (b1, w1) =
         (None, (b2, w2))"
  using assms
  by (auto simp: reconcileSourceBucketCmdRun_def Let_def
      split: list.splits option.splits prod.splits if_splits)

text \<open>
  C10. The handled predicate fetches into the object that the command evaluates.
  When the poll succeeds, that object is the snapshot of the poll's last request, a Get,
  and it is what the store holds at that moment; the command then makes no further
  request (its final world is the world at the end of the poll), decides between
  failure and success on that snapshot, and reports that snapshot's artifact revision.
\<close>

theorem evaluation_uses_last_fetch:
  assumes "args = name # rest"
    and "utils_KubeClient w = None"
    and "kubeClient_Get (zero_Bucket, w) = (None, (b0, w0))"
    and "\<not> Suspend (Spec b0)"
    and "requestBucketReconciliation steps (b0, w0) = (None, (b1, w1))"
    and "PollImmediate (ticks ra)
           (bucketReconciliationHandled (LastHandledReconcileAt (Status b0))) (b1, w1) =
         (None, (b2, w2))"
  shows "stored w2 = Some b2 \<and> hd (served w2) = GetRequest
       \<and> snd (snd (reconcileSourceBucketCmdRun steps ra args w)) = w2
       \<and> (fst (reconcileSourceBucketCmdRun steps ra args w) =
            Return (Some (Errorf ''Bucket source reconciliation failed'')) \<longleftrightarrow>
          IsStatusConditionFalse (Conditions (Status b2)) ReadyCondition)
       \<and> (\<forall>artifact. \<not> IsStatusConditionFalse (Conditions (Status b2)) ReadyCondition
            \<and> Artifact (Status b2) = Some artifact \<longrightarrow>
            fst (reconcileSourceBucketCmdRun steps ra args w) = Return None
            \<and> last (fst (snd (reconcileSourceBucketCmdRun steps ra args w))) =
                ''fetched revision '' @ Revision artifact)"
  using run_after_poll[OF assms] PollImmediate_handled[OF assms(6)]
  by (auto split: option.splits)

theorem evaluation_uses_last_fetch_witness:
  "stored (snd (snd (reconcileSourceBucketCmdRun 4 flux_system args_podinfo
        (scenario reconciled)))) = Some reconciled
   \<and> hd (served (snd (snd (reconcileSourceBucketCmdRun 4 flux_system args_podinfo
        (scenario reconciled))))) = GetRequest
   \<and> reconcileSourceBucketCmdRun 4 flux_system args_podinfo (scenario reconciled) =
     (Return None,
      [''annotating Bucket source podinfo in flux-system namespace'',
       ''Bucket source annotated'', ''waiting for Bucket source reconciliation'',
       ''Bucket source reconciliation completed'', ''fetched revision abc''],
      snd (snd (PollImmediate (ticks flux_system)
        (bucketReconciliationHandled (LastHandledReconcileAt (Status podinfo)))
        (snd (requestBucketReconciliation 4
           (podinfo, snd (snd (kubeClient_Get (zero_Bucket, scenario reconciled)))))))))"
proof -
  let ?w = "scenario reconciled"
  let ?wa = "snd (snd (kubeClient_Get (zero_Bucket, ?w)))"
  let ?sa = "snd (requestBucketReconciliation 4 (podinfo, ?wa))"
  let ?sb = "snd (PollImmediate (ticks flux_system)
     (bucketReconciliationHandled (LastHandledReconcileAt (Status podinfo))) ?sa)"
  have a: "args_podinfo = ''podinfo'' # []" by (simp add: args_podinfo_def)
  have k: "utils_KubeClient ?w = None" by (simp add: run_defs)
  have g: "kubeClient_Get (zero_Bucket, ?w) = (None, (podinfo, ?wa))"
    by (simp add: run_defs)
  have u: "\<not> Suspend (Spec podinfo)" by (simp add: podinfo_def)
  have r: "requestBucketReconciliation 4 (podinfo, ?wa) = (None, (fst ?sa, snd ?sa))"
    by (simp add: run_defs)
  have p: "PollImmediate (ticks flux_system)
     (bucketReconciliationHandled (LastHandledReconcileAt (Status podinfo))) (fst ?sa, snd ?sa) =
     (None, (reconciled, snd ?sb))"
    by (simp add: run_defs reconciled_def)
  have out: "fst (snd (reconcileSourceBucketCmdRun 4 flux_system args_podinfo ?w)) =
      [''annotating Bucket source podinfo in flux-system namespace'',
       ''Bucket source annotated'', ''waiting for Bucket source reconciliation'',
       ''Bucket source reconciliation completed'', ''fetched revision abc'']"
    by (simp add: run_defs reconciled_def)
  have nf: "\<not> IsStatusConditionFalse (Conditions (Status reconciled)) ReadyCondition"
    by (simp add: run_defs reconciled_def)
  have art: "Artifact (Status reconciled) = Some \<lparr>Revision = ''abc''\<rparr>"
    by (simp add: reconciled_def)
  show ?thesis
    using evaluation_uses_last_fetch [OF a k g u r p] out nf art
    by (simp add: prod_eq_iff)
qed

text \<open>
  C1, as stated, fails: the command runs no second poll. In the scenario below the
  controller acknowledges the request with a stale observed generation and no Ready
  condition; the command makes five requests in all (Get, Get, Update and two checks of
  the handled poll) and returns nil.
\<close>

theorem no_second_poll_counterexample:
  "fst (reconcileSourceBucketCmdRun 4 flux_system args_podinfo (scenario unreported)) = Return None
   \<and> stored (snd (snd (reconcileSourceBucketCmdRun 4 flux_system args_podinfo
        (scenario unreported)))) = Some unreported
   \<and> length (served (snd (snd (reconcileSourceBucketCmdRun 4 flux_system args_podinfo
        (scenario unreported))))) = 5
   \<and> Generation unreported \<noteq> ObservedGeneration (Status unreported)
   \<and> FindStatusCondition (Conditions (Status unreported)) ReadyCondition = None"
  by (simp add: run_defs unreported_def)

text \<open>
  C1, amended. There is no second poll: the command returns nil only if the snapshot
  of the handled poll's last fetch, which is the last request made and what the store
  then holds, has no Ready condition with status False.
\<close>

theorem succeeded_only_if_not_failed:
  assumes "fst (reconcileSourceBucketCmdRun steps ra args w) = Return None"
  shows "\<exists>b rest.
           stored (snd (snd (reconcileSourceBucketCmdRun steps ra args w))) = Some b
         \<and> served (snd (snd (reconcileSourceBucketCmdRun steps ra args w))) = GetRequest # rest
         \<and> \<not> IsStatusConditionFalse (Conditions (Status b)) ReadyCondition"
proof -
  obtain name rest b0 w0 b1 w1 b2 w2 where
    ph: "args = name # rest" "utils_KubeClient w = None"
      "kubeClient_Get (zero_Bucket, w) = (None, (b0, w0))" "\<not> Suspend (Spec b0)"
      "requestBucketReconciliation steps (b0, w0) = (None, (b1, w1))"
      "PollImmediate (ticks ra)
           (bucketReconciliationHandled (LastHandledReconcileAt (Status b0))) (b1, w1) =
         (None, (b2, w2))"
    using run_success_phases[OF assms] by blast
  note run = run_after_poll[OF ph]
  note poll = PollImmediate_handled[OF ph(6)]
  have nf: "\<not> IsStatusConditionFalse (Conditions (Status b2)) ReadyCondition"
    using assms run by (auto split: if_splits)
  have "snd (snd (reconcileSourceBucketCmdRun steps ra args w)) = w2"
    using run nf by (simp split: option.splits)
  then show ?thesis using poll nf by auto
qed

theorem succeeded_only_if_not_failed_witness:
  "fst (reconcileSourceBucketCmdRun 4 flux_system args_podinfo (scenario reconciled)) = Return None
   \<and> stored (snd (snd (reconcileSourceBucketCmdRun 4 flux_system args_podinfo
        (scenario reconciled)))) = Some reconciled
   \<and> \<not> IsStatusConditionFalse (Conditions (Status reconciled)) ReadyCondition"
proof -
  have h: "fst (reconcileSourceBucketCmdRun 4 flux_system args_podinfo (scenario reconciled)) =
           Return None"
    by (simp add: run_defs reconciled_def)
  have st: "stored (snd (snd (reconcileSourceBucketCmdRun 4 flux_system args_podinfo
        (scenario reconciled)))) = Some reconciled"
    by (simp add: run_defs reconciled_def)
  obtain b where "stored (snd (snd (reconcileSourceBucketCmdRun 4 flux_system args_podinfo
        (scenario reconciled)))) = Some b"
    and "\<not> IsStatusConditionFalse (Conditions (Status b)) ReadyCondition"
    using succeeded_only_if_not_failed [OF h] by blast
  then show ?thesis using h st by simp
qed

text \<open>
  C2, as stated, fails: with the Ready condition False and the message "fetch failed"
  (scenario B) the command returns an error whose text does not contain the message.
\<close>

theorem message_not_surfaced_counterexample:
  "FindStatusCondition (Conditions (Status fetch_failed)) ReadyCondition =
     Some \<lparr>Type = ''Ready'', CondStatus = ConditionFalse, Message = ''fetch failed''\<rparr>
   \<and> fst (reconcileSourceBucketCmdRun 4 flux_system args_podinfo (scenario fetch_failed)) =
       Return (Some (Errorf ''Bucket source reconciliation failed''))
   \<and> \<not> sublist ''fetch failed'' ''Bucket source reconciliation failed''"
proof -
  have "\<not> sublist ''fetch failed'' ''Bucket source reconciliation failed''"
  proof
    assume "sublist ''fetch failed'' ''Bucket source reconciliation failed''"
    then have "set ''fetch failed'' \<subseteq> set ''Bucket source reconciliation failed''"
      by (rule set_mono_sublist)
    then show False by simp
  qed
  then show ?thesis
    by (simp add: run_defs fetch_failed_def)
qed

text \<open>
  C2, amended. Whenever the handled poll succeeds on a snapshot whose Ready condition
  has status False, the command returns the fixed error "Bucket source reconciliation
  failed", whatever the message of that condition is.
\<close>

theorem fixed_failure_message:
  assumes "args = name # rest"
    and "utils_KubeClient w = None"
    and "kubeClient_Get (zero_Bucket, w) = (None, (b0, w0))"
    and "\<not> Suspend (Spec b0)"
    and "requestBucketReconciliation steps (b0, w0) = (None, (b1, w1))"
    and "PollImmediate (ticks ra)
           (bucketReconciliationHandled (LastHandledReconcileAt (Status b0))) (b1, w1) =
         (None, (b2, w2))"
    and "FindStatusCondition (Conditions (Status b2)) ReadyCondition = Some c"
    and "CondStatus c = ConditionFalse"
  shows "fst (reconcileSourceBucketCmdRun steps ra args w) =
           Return (Some (Errorf ''Bucket source reconciliation failed''))"
  using run_after_poll[OF assms(1-6)] assms(7,8)
  by (simp add: IsStatusConditionFalse_def IsStatusConditionPresentAndEqual_Find)

theorem fixed_failure_message_witness:
  "FindStatusCondition (Conditions (Status fetch_failed)) ReadyCondition =
     Some \<lparr>Type = ''Ready'', CondStatus = ConditionFalse, Message = ''fetch failed''\<rparr>
   \<and> fst (reconcileSourceBucketCmdRun 4 flux_system args_podinfo (scenario fetch_failed)) =
       Return (Some (Errorf ''Bucket source reconciliation failed''))"
proof -
  let ?w = "scenario fetch_failed"
  let ?wa = "snd (snd (kubeClient_Get (zero_Bucket, ?w)))"
  let ?sa = "snd (requestBucketReconciliation 4 (podinfo, ?wa))"
  let ?sb = "snd (PollImmediate (ticks flux_system)
     (bucketReconciliationHandled (LastHandledReconcileAt (Status podinfo))) ?sa)"
  have a: "args_podinfo = ''podinfo'' # []" by (simp add: args_podinfo_def)
  have k: "utils_KubeClient ?w = None" by (simp add: run_defs)
  have g: "kubeClient_Get (zero_Bucket, ?w) = (None, (podinfo, ?wa))"
    by (simp add: run_defs)
  have u: "\<not> Suspend (Spec podinfo)" by (simp add: podinfo_def)
  have r: "requestBucketReconciliation 4 (podinfo, ?wa) = (None, (fst ?sa, snd ?sa))"
    by (simp add: run_defs)
  have p: "PollImmediate (ticks flux_system)
     (bucketReconciliationHandled (LastHandledReconcileAt (Status podinfo))) (fst ?sa, snd ?sa) =
     (None, (fetch_failed, snd ?sb))"
    by (simp add: run_defs fetch_failed_def)
  have f: "FindStatusCondition (Conditions (Status fetch_failed)) ReadyCondition =
     Some \<lparr>Type = ''Ready'', CondStatus = ConditionFalse, Message = ''fetch failed''\<rparr>"
    by (simp add: fetch_failed_def ReadyCondition_def ConditionFalse_def)
  have c: "CondStatus \<lparr>Type = ''Ready'', CondStatus = ConditionFalse, Message = ''fetch failed''\<rparr>
           = ConditionFalse" by simp
  show ?thesis
    using fixed_failure_message [OF a k g u r p f c] f by simp
qed

text \<open>
  C3. The success path dereferences \<^verbatim>\<open>bucket.Status.Artifact\<close> without a nil check.
  When the controller has handled the request but reports Ready as Unknown and has no
  artifact yet, the wait completes, the Ready condition is not False, and the command
  panics instead of returning.
\<close>

theorem nil_artifact_panics:
  "\<not> IsStatusConditionFalse (Conditions (Status in_progress)) ReadyCondition
   \<and> Artifact (Status in_progress) = None
   \<and> fst (reconcileSourceBucketCmdRun 4 flux_system args_podinfo (scenario in_progress)) = Panic"
  by (simp add: run_defs in_progress_def)

end
